theory Spec2Isabelle
  imports Complex_Main
begin

section \<open>Numeric model and vectors\<close>

text \<open>
  The fragment shader computes on GLSL \<open>float\<close>s and the layer on JavaScript numbers.
  Both are modelled by \<^typ>\<open>real\<close>: every literal of the source is taken at its written
  decimal value and every operation is the exact real one. The GLSL built-ins are the
  functions of the same name on the reals (\<open>log\<close> is the natural logarithm \<^const>\<open>ln\<close>,
  one-argument \<open>atan\<close> is \<^const>\<open>arctan\<close>). The mathematical constant \<^term>\<open>pi\<close> occurs
  only inside the two-argument arc tangent; the shader's own constant is \<open>PI\<close> below.
\<close>

type_synonym vec2 = "real \<times> real"
type_synonym vec3 = "real \<times> real \<times> real"
type_synonym vec4 = "real \<times> real \<times> real \<times> real"

text \<open>GLSL \<open>clamp(x, lo, hi) = min(max(x, lo), hi)\<close>.\<close>

definition clamp :: "real \<Rightarrow> real \<Rightarrow> real \<Rightarrow> real" where
  "clamp x lo hi = min (max x lo) hi"

text \<open>GLSL \<open>mod(x, y) = x - y * floor(x / y)\<close>.\<close>

definition glsl_mod :: "real \<Rightarrow> real \<Rightarrow> real" where
  "glsl_mod x y = x - y * of_int \<lfloor>x / y\<rfloor>"

text \<open>
  GLSL \<open>pow(x, y)\<close>; the language leaves the result undefined for \<open>x < 0\<close> and for
  \<open>x = 0\<close> with \<open>y \<le> 0\<close>. On the defined domain it is the real power.
\<close>

definition glsl_pow :: "real \<Rightarrow> real \<Rightarrow> real" where
  "glsl_pow x y = x powr y"

text \<open>
  GLSL two-argument \<open>atan(y, x)\<close>: the angle of the point \<open>(x, y)\<close>, in \<open>[-\<pi>, \<pi>]\<close>,
  the quadrant chosen by the signs of both arguments (undefined in GLSL at \<open>(0, 0)\<close>,
  where the model returns 0).
\<close>

definition glsl_atan2 :: "real \<Rightarrow> real \<Rightarrow> real" where
  "glsl_atan2 y x =
     (if 0 < x then arctan (y / x)
      else if x < 0 then (if 0 \<le> y then arctan (y / x) + pi else arctan (y / x) - pi)
      else if 0 < y then pi / 2
      else if y < 0 then - (pi / 2)
      else 0)"

section \<open>Fragment shader: uniforms and constants\<close>

text \<open>
  The uniform arrays have a fixed size in the shader (\<open>u_points[250]\<close>,
  \<open>u_gradientColors[5]\<close>, \<open>u_gradientStops[5]\<close>); they are functions of the index, read
  only below those sizes.
\<close>

record uniforms =
  u_center :: vec2
  u_zoom :: real
  u_viewportSize :: vec2
  u_influenceRadius :: real
  u_falloffSteepness :: real
  u_points :: "nat \<Rightarrow> vec3"
  u_numPoints :: int
  u_gradientColors :: "nat \<Rightarrow> vec3"
  u_gradientStops :: "nat \<Rightarrow> real"

definition EARTH_RADIUS :: real where
  "EARTH_RADIUS = 6371.0"

definition PI :: real where
  "PI = 3.14159265359"

definition WORLD_SIZE :: real where
  "WORLD_SIZE = 512.0"

section \<open>Fragment shader: projection\<close>

definition degToRad :: "real \<Rightarrow> real" where
  "degToRad deg = deg * PI / 180.0"

definition lngToMercatorX :: "real \<Rightarrow> real" where
  "lngToMercatorX lng = (lng + 180.0) / 360.0"

definition latToMercatorY :: "real \<Rightarrow> real" where
  "latToMercatorY lat =
     (let latRad = degToRad lat;
          mercatorY = (PI - ln (tan (PI / 4.0 + latRad / 2.0))) / (2.0 * PI)
      in mercatorY)"

definition mercatorYToLat :: "real \<Rightarrow> real" where
  "mercatorYToLat y =
     (let latRad = 2.0 * (arctan (exp (PI * (1.0 - 2.0 * y))) - PI / 4.0)
      in latRad * 180.0 / PI)"

definition mercatorXToLng :: "real \<Rightarrow> real" where
  "mercatorXToLng x = x * 360.0 - 180.0"

definition normalizeLng :: "real \<Rightarrow> real" where
  "normalizeLng lng = glsl_mod (lng + 180.0) 360.0 - 180.0"

definition lngDifference :: "real \<Rightarrow> real \<Rightarrow> real" where
  "lngDifference lng1 lng2 =
     (let diff = lng2 - lng1;
          diff = (if diff > 180.0 then diff - 360.0 else diff);
          diff = (if diff < - 180.0 then diff + 360.0 else diff)
      in diff)"

text \<open>\<open>screenToGeo\<close> returns the geographic position and, as its \<open>out\<close> parameter, the world wrap.\<close>

definition screenToGeo :: "uniforms \<Rightarrow> vec2 \<Rightarrow> vec2 \<times> real" where
  "screenToGeo u screenPos =
     (let centerMercX = lngToMercatorX (fst (u_center u));
          centerMercY = latToMercatorY (snd (u_center u));
          scale = WORLD_SIZE * glsl_pow 2.0 (u_zoom u);
          pixelPos = (fst screenPos * fst (u_viewportSize u) * 0.5,
                      - snd screenPos * snd (u_viewportSize u) * 0.5);
          mercOffset = (fst pixelPos / scale, snd pixelPos / scale);
          mercX = centerMercX + fst mercOffset;
          mercY = centerMercY + snd mercOffset;
          worldWrap = of_int \<lfloor>mercX\<rfloor>;
          normalizedMercX = mercX - worldWrap;
          lng = mercatorXToLng normalizedMercX;
          lat = mercatorYToLat mercY
      in ((lng, lat), worldWrap))"

section \<open>Fragment shader: distance\<close>

definition haversineDistance :: "vec2 \<Rightarrow> vec2 \<Rightarrow> real" where
  "haversineDistance point1 point2 =
     (let lat1 = degToRad (snd point1);
          lat2 = degToRad (snd point2);
          dLat = degToRad (snd point2 - snd point1);
          lngDiff = lngDifference (fst point1) (fst point2);
          dLng = degToRad lngDiff;
          a = sin (dLat / 2.0) * sin (dLat / 2.0) +
              cos lat1 * cos lat2 * sin (dLng / 2.0) * sin (dLng / 2.0);
          c = 2.0 * glsl_atan2 (sqrt a) (sqrt (1.0 - a))
      in EARTH_RADIUS * c)"

section \<open>Fragment shader: colour bands\<close>

definition getColor :: "uniforms \<Rightarrow> real \<Rightarrow> vec3" where
  "getColor u v0 =
     (let v = clamp v0 0.0 1.0 in
      if v < 0.2 then u_gradientColors u 0
      else if v < 0.4 then u_gradientColors u 1
      else if v < 0.6 then u_gradientColors u 2
      else if v < 0.8 then u_gradientColors u 3
      else u_gradientColors u 4)"

section \<open>Fragment shader: radial influence and blending\<close>

text \<open>
  The falloff of one sample point at a distance inside the radius: the three statements
  of the loop body of \<open>main\<close> that lead from \<open>distance\<close> to \<open>falloff\<close>.
\<close>

definition falloff :: "uniforms \<Rightarrow> real \<Rightarrow> real" where
  "falloff u distance =
     (let normalizedDist = distance / u_influenceRadius u;
          normalizedDist = glsl_pow normalizedDist (u_falloffSteepness u)
      in 0.5 + 0.5 * cos (normalizedDist * 3.14159))"

text \<open>
  The loop \<open>for (int i = 0; i < 250; i++)\<close> of \<open>main\<close>, from index \<open>i\<close> with the
  running pair \<open>(totalInfluence, totalWeight)\<close>: \<open>break\<close> at \<open>i >= u_numPoints\<close>,
  \<open>continue\<close> at a zero value.
\<close>

function accumulate :: "uniforms \<Rightarrow> vec2 \<Rightarrow> nat \<Rightarrow> real \<times> real \<Rightarrow> real \<times> real" where
  "accumulate u currentPos i (totalInfluence, totalWeight) =
     (if i < 250 then
        if int i \<ge> u_numPoints u then (totalInfluence, totalWeight)
        else
          let pointPos = (fst (u_points u i), fst (snd (u_points u i)));
              pointValue = snd (snd (u_points u i))
          in if pointValue = 0.0 then
               accumulate u currentPos (i + 1) (totalInfluence, totalWeight)
             else
               let distance = haversineDistance currentPos pointPos
               in if distance < u_influenceRadius u then
                    let fo = falloff u distance;
                        influence = pointValue * fo;
                        weight = fo * fo
                    in accumulate u currentPos (i + 1)
                         (totalInfluence + influence * weight, totalWeight + weight)
                  else accumulate u currentPos (i + 1) (totalInfluence, totalWeight)
      else (totalInfluence, totalWeight))"
  by pat_completeness auto
termination
  by (relation "measure (\<lambda>(u, currentPos, i, acc). 250 - i)") auto

declare accumulate.simps [simp del]

text \<open>The weighted average of \<open>main\<close>, boosted by 1.15, at a geographic position.\<close>

definition interpolatedValue :: "uniforms \<Rightarrow> vec2 \<Rightarrow> real" where
  "interpolatedValue u currentPos =
     (let (totalInfluence, totalWeight) = accumulate u currentPos 0 (0.0, 0.0)
      in if totalWeight > 0.0 then (totalInfluence / totalWeight) * 1.15 else 0.0)"

text \<open>\<open>main\<close>: the colour \<open>gl_FragColor\<close> of the fragment at \<open>v_screenPos\<close>.\<close>

definition main :: "uniforms \<Rightarrow> vec2 \<Rightarrow> vec4" where
  "main u v_screenPos =
     (let (currentPos, worldWrap) = screenToGeo u v_screenPos in
      if worldWrap \<noteq> 0.0 then (0.0, 0.0, 0.0, 0.0)
      else
        let iv = interpolatedValue u currentPos in
        if iv \<le> 0.0 then (0.0, 0.0, 0.0, 0.0)
        else
          let alpha = 0.8;
              color = getColor u iv
          in (fst color / 255.0, fst (snd color) / 255.0, snd (snd color) / 255.0, alpha))"

section \<open>Layer: configuration data\<close>

text \<open>A sample point is the JavaScript object \<open>{lng, lat, value}\<close>.\<close>

record samplePoint =
  p_lng :: real
  p_lat :: real
  p_value :: real

record config =
  influenceRadius :: real
  falloffSteepness :: real
  resolution :: real
  minValue :: real
  maxValue :: real

definition DEFAULT_CONFIG :: config where
  "DEFAULT_CONFIG =
     \<lparr>influenceRadius = 25.0, falloffSteepness = 1.8, resolution = 512,
      minValue = 0.0, maxValue = 1.0\<rparr>"

text \<open>
  The argument of the constructor and of \<open>updateConfig\<close> is an object holding any subset
  of the configuration fields; the spread \<open>{ ...base, ...patch }\<close> overwrites the fields
  that the patch holds.
\<close>

record config_patch =
  patch_influenceRadius :: "real option"
  patch_falloffSteepness :: "real option"
  patch_resolution :: "real option"
  patch_minValue :: "real option"
  patch_maxValue :: "real option"

definition spread :: "config \<Rightarrow> config_patch \<Rightarrow> config" where
  "spread base patch =
     \<lparr>influenceRadius = (case patch_influenceRadius patch of None \<Rightarrow> influenceRadius base | Some r \<Rightarrow> r),
      falloffSteepness = (case patch_falloffSteepness patch of None \<Rightarrow> falloffSteepness base | Some r \<Rightarrow> r),
      resolution = (case patch_resolution patch of None \<Rightarrow> resolution base | Some r \<Rightarrow> r),
      minValue = (case patch_minValue patch of None \<Rightarrow> minValue base | Some r \<Rightarrow> r),
      maxValue = (case patch_maxValue patch of None \<Rightarrow> maxValue base | Some r \<Rightarrow> r)\<rparr>"

record gradientEntry =
  stop :: real
  color :: vec3

definition COLOR_GRADIENT :: "gradientEntry list" where
  "COLOR_GRADIENT =
     [\<lparr>stop = 0.0, color = (135, 206, 250)\<rparr>,
      \<lparr>stop = 0.2, color = (100, 180, 230)\<rparr>,
      \<lparr>stop = 0.4, color = (70, 130, 180)\<rparr>,
      \<lparr>stop = 0.6, color = (30, 100, 200)\<rparr>,
      \<lparr>stop = 0.8, color = (0, 60, 150)\<rparr>]"

section \<open>Layer: state, errors and the graphics context\<close>

datatype error = Error string

text \<open>
  The graphics context is the host's: of it the layer observes whether each shader
  compiles and whether the program links, and receives opaque handles.
\<close>

datatype shaderType = VERTEX_SHADER | FRAGMENT_SHADER

record glContext =
  compileStatus :: "shaderType \<Rightarrow> bool"
  linkStatus :: bool
  shaderHandle :: "shaderType \<Rightarrow> nat"
  programHandle :: nat
  bufferHandle :: nat

text \<open>
  The fields of a \<open>PrecipitationLayer\<close>. A field that the constructor does not assign
  (\<open>map\<close>, \<open>pointsArray\<close>, \<open>gradientColors\<close>, \<open>gradientStops\<close>) is \<open>None\<close> until a
  method assigns it; \<open>program\<close> and \<open>positionBuffer\<close> start as \<open>null\<close>, also \<open>None\<close>.
  The typed arrays are flat lists of numbers.
\<close>

record layer =
  layer_id :: string
  layer_type :: string
  renderingMode :: string
  points :: "samplePoint list"
  layer_config :: config
  program :: "nat option"
  positionBuffer :: "nat option"
  layer_map :: "nat option"
  pointsArray :: "real list option"
  gradientColors :: "real list option"
  gradientStops :: "real list option"

definition PrecipitationLayer :: "string \<Rightarrow> samplePoint list \<Rightarrow> config_patch \<Rightarrow> layer" where
  "PrecipitationLayer ident pts cfg =
     \<lparr>layer_id = ident, layer_type = ''custom'', renderingMode = ''2d'',
      points = pts, layer_config = spread DEFAULT_CONFIG cfg,
      program = None, positionBuffer = None, layer_map = None,
      pointsArray = None, gradientColors = None, gradientStops = None\<rparr>"

text \<open>\<open>createShader\<close> and \<open>createProgram\<close> return \<open>null\<close> when the build fails.\<close>

definition createShader :: "glContext \<Rightarrow> shaderType \<Rightarrow> nat option" where
  "createShader gl ty = (if \<not> compileStatus gl ty then None else Some (shaderHandle gl ty))"

definition createProgram :: "glContext \<Rightarrow> nat \<Rightarrow> nat \<Rightarrow> nat option" where
  "createProgram gl vertexShader fragmentShader =
     (if \<not> linkStatus gl then None else Some (programHandle gl))"

section \<open>Layer: cached uniform data\<close>

text \<open>The three loops of \<open>prepareUniformData\<close> that fill the flat typed arrays.\<close>

definition pointsArray_of :: "samplePoint list \<Rightarrow> real list" where
  "pointsArray_of pts = concat (map (\<lambda>point. [p_lng point, p_lat point, p_value point]) pts)"

definition gradientColors_of :: "gradientEntry list \<Rightarrow> real list" where
  "gradientColors_of grads =
     concat (map (\<lambda>grad. [fst (color grad), fst (snd (color grad)), snd (snd (color grad))]) grads)"

definition gradientStops_of :: "gradientEntry list \<Rightarrow> real list" where
  "gradientStops_of grads = map stop grads"

text \<open>
  A method that can throw returns the thrown error, if any, together with the layer as
  the call leaves it: assignments made before the \<open>throw\<close> stay.
\<close>

definition prepareUniformData :: "layer \<Rightarrow> error option \<times> layer" where
  "prepareUniformData L =
     (if length (points L) > 250 then (Some (Error ''Maximum 250 data points supported''), L)
      else (None,
            L\<lparr>pointsArray := Some (pointsArray_of (points L)),
              gradientColors := Some (gradientColors_of COLOR_GRADIENT),
              gradientStops := Some (gradientStops_of COLOR_GRADIENT)\<rparr>))"

definition onAdd :: "layer \<Rightarrow> nat \<Rightarrow> glContext \<Rightarrow> error option \<times> layer" where
  "onAdd L mp gl =
     (let L1 = L\<lparr>layer_map := Some mp\<rparr>;
          vertexShader = createShader gl VERTEX_SHADER;
          fragmentShader = createShader gl FRAGMENT_SHADER
      in case (vertexShader, fragmentShader) of
           (Some vs, Some fs) \<Rightarrow>
             (let L2 = L1\<lparr>program := createProgram gl vs fs\<rparr>
              in case program L2 of
                   None \<Rightarrow> (Some (Error ''Failed to link shader program for precipitation layer''), L2)
                 | Some pr \<Rightarrow>
                     prepareUniformData (L2\<lparr>positionBuffer := Some (bufferHandle gl)\<rparr>))
         | _ \<Rightarrow> (Some (Error ''Failed to compile shaders for precipitation layer''), L1))"

definition updateConfig :: "config_patch \<Rightarrow> layer \<Rightarrow> layer" where
  "updateConfig newConfig L = L\<lparr>layer_config := spread (layer_config L) newConfig\<rparr>"

definition updatePoints :: "samplePoint list \<Rightarrow> layer \<Rightarrow> error option \<times> layer" where
  "updatePoints newPoints L =
     (let L1 = L\<lparr>points := newPoints\<rparr>
      in prepareUniformData L1)"

section \<open>Layer: uploading the uniforms in render\<close>

text \<open>
  \<open>gl.uniform3fv\<close> and \<open>gl.uniform1fv\<close> on a uniform array of a given capacity: element
  \<open>i\<close> of the array is overwritten when the data holds it, data beyond the array is
  ignored, and an element that the data does not reach keeps its earlier contents.
\<close>

definition uniform3fv :: "(nat \<Rightarrow> vec3) \<Rightarrow> nat \<Rightarrow> real list \<Rightarrow> (nat \<Rightarrow> vec3)" where
  "uniform3fv old cap dat =
     (\<lambda>i. if i < cap \<and> 3 * i + 2 < length dat
          then (dat ! (3 * i), dat ! (3 * i + 1), dat ! (3 * i + 2))
          else old i)"

definition uniform1fv :: "(nat \<Rightarrow> real) \<Rightarrow> nat \<Rightarrow> real list \<Rightarrow> (nat \<Rightarrow> real)" where
  "uniform1fv old cap dat = (\<lambda>i. if i < cap \<and> i < length dat then dat ! i else old i)"

text \<open>The camera that \<open>render\<close> reads from the map and the canvas.\<close>

record camera =
  center :: vec2
  zoom :: real
  clientWidth :: real
  clientHeight :: real

text \<open>The two calls of \<open>render\<close> that set the data points.\<close>

definition set_point_uniforms :: "real list \<Rightarrow> nat \<Rightarrow> uniforms \<Rightarrow> uniforms" where
  "set_point_uniforms arr n u =
     u\<lparr>u_points := uniform3fv (u_points u) 250 arr, u_numPoints := int n\<rparr>"

text \<open>The two calls of \<open>render\<close> that set the colour gradient.\<close>

definition set_gradient_uniforms :: "real list \<Rightarrow> real list \<Rightarrow> uniforms \<Rightarrow> uniforms" where
  "set_gradient_uniforms colors stops u =
     u\<lparr>u_gradientColors := uniform3fv (u_gradientColors u) 5 colors,
       u_gradientStops := uniform1fv (u_gradientStops u) 5 stops\<rparr>"

text \<open>
  The uniforms of the program after \<open>render\<close>, from those before it. The call throws,
  and the result is \<open>None\<close>, when the layer has no map yet (\<open>this.map.getCenter()\<close>) or
  when a cached array is still undefined at its upload.
\<close>

definition render :: "layer \<Rightarrow> camera \<Rightarrow> uniforms \<Rightarrow> uniforms option" where
  "render L cam u =
     (case layer_map L of
        None \<Rightarrow> None
      | Some mp \<Rightarrow>
          (case (pointsArray L, gradientColors L, gradientStops L) of
             (Some arr, Some colors, Some stops) \<Rightarrow>
               Some (set_gradient_uniforms colors stops
                      (set_point_uniforms arr (length (points L))
                        (u\<lparr>u_center := center cam, u_zoom := zoom cam,
                           u_viewportSize := (clientWidth cam, clientHeight cam),
                           u_influenceRadius := influenceRadius (layer_config L),
                           u_falloffSteepness := falloffSteepness (layer_config L)\<rparr>)))
           | _ \<Rightarrow> None))"

section \<open>The colour lookup as the specification words it\<close>

text \<open>
  Clamp the value to \<open>[0, 1]\<close>, scan the ordered gradient stops and keep the colour of
  the last stop whose threshold is at most the value; \<open>None\<close> when no stop qualifies.
\<close>

definition colorFor_spec :: "gradientEntry list \<Rightarrow> real \<Rightarrow> vec3 option" where
  "colorFor_spec grads v0 =
     (let v = clamp v0 0 1
      in foldl (\<lambda>found grad. if stop grad \<le> v then Some (color grad) else found) None grads)"

section \<open>The loop body on one sample point\<close>

text \<open>
  One pass of the loop body of \<open>main\<close> on the running pair, for the sample point that the
  pass reads; the proofs relate \<open>accumulate\<close> to a left fold of it over the point list.
\<close>

definition blend_step :: "uniforms \<Rightarrow> vec2 \<Rightarrow> real \<times> real \<Rightarrow> samplePoint \<Rightarrow> real \<times> real" where
  "blend_step u currentPos acc point =
     (if p_value point = 0 then acc
      else if haversineDistance currentPos (p_lng point, p_lat point) < u_influenceRadius u
      then (fst acc + p_value point
                * falloff u (haversineDistance currentPos (p_lng point, p_lat point))
                * (falloff u (haversineDistance currentPos (p_lng point, p_lat point))
                   * falloff u (haversineDistance currentPos (p_lng point, p_lat point))),
            snd acc + falloff u (haversineDistance currentPos (p_lng point, p_lat point))
                * falloff u (haversineDistance currentPos (p_lng point, p_lat point)))
      else acc)"

section \<open>Concrete states for the closed theorems\<close>

text \<open>The uniforms of a freshly linked program are all zero.\<close>

definition zero_uniforms :: uniforms where
  "zero_uniforms =
     \<lparr>u_center = (0, 0), u_zoom = 0, u_viewportSize = (0, 0),
      u_influenceRadius = 0, u_falloffSteepness = 0,
      u_points = (\<lambda>i. (0, 0, 0)), u_numPoints = 0,
      u_gradientColors = (\<lambda>i. (0, 0, 0)), u_gradientStops = (\<lambda>i. 0)\<rparr>"

text \<open>A graphics context on which both shaders compile and the program links.\<close>

definition working_gl :: glContext where
  "working_gl =
     \<lparr>compileStatus = (\<lambda>ty. True), linkStatus = True,
      shaderHandle = (\<lambda>ty. case ty of VERTEX_SHADER \<Rightarrow> 1 | FRAGMENT_SHADER \<Rightarrow> 2),
      programHandle = 3, bufferHandle = 4\<rparr>"

text \<open>The empty configuration object \<open>{}\<close>, the default of the constructor's parameter.\<close>

definition empty_patch :: config_patch where
  "empty_patch =
     \<lparr>patch_influenceRadius = None, patch_falloffSteepness = None, patch_resolution = None,
      patch_minValue = None, patch_maxValue = None\<rparr>"

text \<open>A rainy sample point just west of the antimeridian, and a dry one next to it.\<close>

definition wet_point :: samplePoint where
  "wet_point = \<lparr>p_lng = - 179.9, p_lat = 0, p_value = 1\<rparr>"

definition dry_point :: samplePoint where
  "dry_point = \<lparr>p_lng = - 179.8, p_lat = 0, p_value = 0\<rparr>"

text \<open>A layer holding the one wet point, added to a map on the working context.\<close>

definition active_layer :: layer where
  "active_layer = snd (onAdd (PrecipitationLayer ''precipitation-layer'' [wet_point] empty_patch) 0 working_gl)"

text \<open>
  A second wet point just east of the antimeridian, a configuration object that narrows the
  radius to 10 km, and a layer holding both wet points, added to a map.
\<close>

definition east_point :: samplePoint where
  "east_point = \<lparr>p_lng = 179.9, p_lat = 0, p_value = 1\<rparr>"

definition narrow_patch :: config_patch where
  "narrow_patch = empty_patch\<lparr>patch_influenceRadius := Some 10\<rparr>"

definition two_point_layer :: layer where
  "two_point_layer =
     snd (onAdd (PrecipitationLayer ''precipitation-layer'' [wet_point, east_point] narrow_patch) 0 working_gl)"

definition still_camera :: camera where
  "still_camera = \<lparr>center = (10.25, 59.75), zoom = 7.5, clientWidth = 800, clientHeight = 600\<rparr>"

section \<open>Bounds for \<open>\<pi>\<close>\<close>

text \<open>
  The shader writes \<open>\<pi>\<close> as decimal literals. Comparing them with the real \<^term>\<open>pi\<close>
  needs bounds, taken from Machin's formula and the alternating series of the arc tangent.
\<close>

lemma arctan_partial_sums:
  fixes x :: real
  assumes ax: "\<bar>x\<bar> \<le> 1" and pos: "0 < x"
  shows "(\<Sum>i<2*n. (- 1) ^ i * (1 / real (i * 2 + 1) * x ^ (i * 2 + 1))) \<le> arctan x"
    and "arctan x \<le> (\<Sum>i<2*n+1. (- 1) ^ i * (1 / real (i * 2 + 1) * x ^ (i * 2 + 1)))"
proof -
  have p0: "0 < 1 / real (0 * 2 + 1) * x ^ (0 * 2 + 1)"
    using pos by simp
  have "(\<Sum>i. (- 1) ^ i * (1 / real (i * 2 + 1) * x ^ (i * 2 + 1)))
        \<in> {\<Sum>i<2*n. (- 1) ^ i * (1 / real (i * 2 + 1) * x ^ (i * 2 + 1)) ..
            \<Sum>i<2*n+1. (- 1) ^ i * (1 / real (i * 2 + 1) * x ^ (i * 2 + 1))}"
    by (rule summable_Leibniz(2)[OF zeroseq_arctan_series[OF ax] monoseq_arctan_series[OF ax],
          rule_format, OF p0])
  then show "(\<Sum>i<2*n. (- 1) ^ i * (1 / real (i * 2 + 1) * x ^ (i * 2 + 1))) \<le> arctan x"
    and "arctan x \<le> (\<Sum>i<2*n+1. (- 1) ^ i * (1 / real (i * 2 + 1) * x ^ (i * 2 + 1)))"
    unfolding arctan_series[OF ax] atLeastAtMost_iff by blast+
qed

lemma arctan_fifth_lower:
  "(1/5 - 1/375 + 1/15625 - 1/546875 :: real) \<le> arctan (1/5)"
proof -
  have "(\<Sum>i<2*2. (- 1) ^ i * (1 / real (i * 2 + 1) * (1/5 :: real) ^ (i * 2 + 1)))
        = 1/5 - 1/375 + 1/15625 - 1/546875"
    by (simp add: lessThan_nat_numeral lessThan_Suc power_divide)
  then show ?thesis
    using arctan_partial_sums(1)[of "1/5" 2] by simp
qed

lemma arctan_239_upper: "arctan (1/239) \<le> (1/239 :: real)"
  using arctan_partial_sums(2)[of "1/239" 0] by simp

lemma pi_lower: "3.14159 < pi"
proof -
  have "pi = 16 * arctan (1/5) - 4 * arctan (1/239)"
    using machin by simp
  with arctan_fifth_lower arctan_239_upper show ?thesis by simp
qed




section \<open>Longitude difference\<close>

lemma lngDifference_cases:
  "lngDifference a b =
     (if b - a > 180 then b - a - 360 else if b - a < - 180 then b - a + 360 else b - a)"
  by (simp add: lngDifference_def Let_def)

lemma lngDifference_antisym: "lngDifference b a = - lngDifference a b"
  by (simp add: lngDifference_cases)

text \<open>
  Claim C8, as stated, fails: the result of \<open>lngDifference\<close> does not always lie in the
  half-open interval \<open>(-180, 180]\<close>. For the longitudes \<open>0\<close> and \<open>-180\<close> the naive
  difference is \<open>-180\<close>, neither test of the function fires (both are strict), and
  \<open>-180\<close> itself is returned.
\<close>

theorem lngDifference_reaches_minus_180: "\<not> (- 180 < lngDifference 0 (- 180))"
  by (simp add: lngDifference_cases)

text \<open>
  Claim C8, amended: for longitudes \<open>a\<close>, \<open>b\<close> in \<open>[-180, 180]\<close> the result lies in the
  closed interval \<open>[-180, 180]\<close>; it is the naive difference \<open>b - a\<close>, corrected by
  \<open>-360\<close> or \<open>+360\<close> when that lies outside the interval; the lower end \<open>-180\<close> is
  returned exactly when \<open>b - a = -180\<close>; and no angle congruent to \<open>b - a\<close> modulo 360
  is shorter.
\<close>

theorem lngDifference_closed_range:
  assumes "- 180 \<le> a" "a \<le> 180" "- 180 \<le> b" "b \<le> 180"
  shows "- 180 \<le> lngDifference a b \<and> lngDifference a b \<le> 180
         \<and> lngDifference a b =
             (if b - a > 180 then b - a - 360 else if b - a < - 180 then b - a + 360 else b - a)
         \<and> ((lngDifference a b = - 180) = (b - a = - 180))
         \<and> (\<forall>k::int. \<bar>lngDifference a b\<bar> \<le> \<bar>b - a + 360 * of_int k\<bar>)"
proof -
  let ?r = "lngDifference a b"
  have rng: "- 180 \<le> ?r \<and> ?r \<le> 180"
    using assms by (simp add: lngDifference_cases)
  have shape: "?r = b - a \<or> ?r = b - a - 360 \<or> ?r = b - a + 360"
    by (simp add: lngDifference_cases)
  have low: "(?r = - 180) = (b - a = - 180)"
    using assms by (simp add: lngDifference_cases)
  have short: "\<bar>?r\<bar> \<le> \<bar>b - a + 360 * of_int k\<bar>" for k :: int
  proof -
    from shape obtain j :: int where j: "b - a = ?r + 360 * of_int j"
    proof (elim disjE)
      assume "?r = b - a" then have "b - a = ?r + 360 * of_int (0::int)" by simp
      then show ?thesis using that by blast
    next
      assume "?r = b - a - 360" then have "b - a = ?r + 360 * of_int (1::int)" by simp
      then show ?thesis using that by blast
    next
      assume "?r = b - a + 360" then have "b - a = ?r + 360 * of_int (- 1::int)" by simp
      then show ?thesis using that by blast
    qed
    have eq: "b - a + 360 * of_int k = ?r + 360 * of_int (j + k)"
      using j by (simp add: algebra_simps)
    show ?thesis
    proof (cases "j + k = 0")
      case True
      then show ?thesis using eq by simp
    next
      case False
      then have "j + k \<ge> 1 \<or> j + k \<le> - 1" by arith
      then have "(of_int (j + k) :: real) \<ge> 1 \<or> (of_int (j + k) :: real) \<le> - 1"
        by (metis of_int_1 of_int_le_iff of_int_minus)
      then show ?thesis using rng unfolding eq by (auto simp: abs_if split: if_splits)
    qed
  qed
  from rng low short show ?thesis
    by (simp add: lngDifference_cases [symmetric])
qed

theorem lngDifference_closed_range_witness:
  "- 180 \<le> (179.9::real) \<and> (179.9::real) \<le> 180 \<and> - 180 \<le> (- 179.9::real) \<and> (- 179.9::real) \<le> 180
   \<and> lngDifference 179.9 (- 179.9) = 0.2
   \<and> \<bar>lngDifference 179.9 (- 179.9)\<bar> \<le> \<bar>- 179.9 - 179.9 + 360 * of_int (0::int)\<bar>"
proof -
  have h: "- 180 \<le> (179.9::real)" "(179.9::real) \<le> 180" "- 180 \<le> (- 179.9::real)"
    "(- 179.9::real) \<le> 180" by simp_all
  from lngDifference_closed_range[OF h]
  have "lngDifference 179.9 (- 179.9) =
          (if - 179.9 - 179.9 > (180::real) then - 179.9 - 179.9 - 360
           else if - 179.9 - 179.9 < (- 180::real) then - 179.9 - 179.9 + 360
           else - 179.9 - 179.9)"
    and "\<forall>k::int. \<bar>lngDifference 179.9 (- 179.9)\<bar> \<le> \<bar>- 179.9 - 179.9 + 360 * of_int k\<bar>"
    by blast+
  then show ?thesis by simp
qed

section \<open>Great-circle distance\<close>

lemma haversineDistance_sym: "haversineDistance P Q = haversineDistance Q P"
proof -
  have 1: "degToRad (snd P - snd Q) = - degToRad (snd Q - snd P)"
    by (simp add: degToRad_def field_simps)
  have 2: "degToRad (lngDifference (fst Q) (fst P)) = - degToRad (lngDifference (fst P) (fst Q))"
    by (simp add: lngDifference_antisym[of "fst P"] degToRad_def)
  show ?thesis
    unfolding haversineDistance_def Let_def 1 2 by (simp add: mult.commute)
qed

lemma haversineDistance_self: "haversineDistance P P = 0"
  by (simp add: haversineDistance_def Let_def lngDifference_cases degToRad_def glsl_atan2_def)

lemma atan2_half_angle:
  assumes "0 \<le> x" "x < pi / 2"
  shows "glsl_atan2 (sqrt (sin x * sin x)) (sqrt (1 - sin x * sin x)) = x"
proof -
  have s: "0 \<le> sin x" using assms pi_gt_zero by (intro sin_ge_zero) auto
  have c: "0 < cos x" using assms by (intro cos_gt_zero_pi) auto
  have "1 - sin x * sin x = cos x * cos x"
    using sin_cos_squared_add[of x] by (simp add: power2_eq_square algebra_simps)
  then have "sqrt (1 - sin x * sin x) = cos x" using c by simp
  moreover have "sqrt (sin x * sin x) = sin x" using s by simp
  moreover have "arctan (sin x / cos x) = x"
    using arctan_tan[of x] assms by (simp add: tan_def)
  ultimately show ?thesis using c by (simp add: glsl_atan2_def)
qed

lemma haversineDistance_antimeridian:
  "haversineDistance (179.9, 0) (- 179.9, 0) = 6371 * (0.2 * PI / 180)"
proof -
  let ?x = "0.1 * PI / 180 :: real"
  have x0: "0 \<le> ?x" by (simp add: PI_def)
  have "?x < 1" by (simp add: PI_def)
  also have "1 < pi / 2" using pi_lower by simp
  finally have x1: "?x < pi / 2" .
  have d: "lngDifference 179.9 (- 179.9) = 0.2" by (simp add: lngDifference_cases)
  have h: "degToRad 0.2 / 2 = ?x" by (simp add: degToRad_def)
  have "haversineDistance (179.9, 0) (- 179.9, 0)
        = EARTH_RADIUS * (2 * glsl_atan2 (sqrt (sin ?x * sin ?x)) (sqrt (1 - sin ?x * sin ?x)))"
    unfolding haversineDistance_def Let_def fst_conv snd_conv d
    by (simp add: h) (simp add: degToRad_def)
  also have "\<dots> = EARTH_RADIUS * (2 * ?x)"
    by (simp only: atan2_half_angle[OF x0 x1])
  finally show ?thesis by (simp add: EARTH_RADIUS_def)
qed

lemma haversineDistance_antimeridian_bounds:
  "22 < haversineDistance (179.9, 0) (- 179.9, 0)" "haversineDistance (179.9, 0) (- 179.9, 0) < 23"
  unfolding haversineDistance_antimeridian by (simp_all add: PI_def)

text \<open>
  Claim C4: \<open>haversineDistance\<close> is symmetric, the distance of a point to itself is 0, and
  the distance between \<open>(179.9, 0)\<close> and \<open>(-179.9, 0)\<close> is about 22 km (between 22 and 23;
  exactly the arc of 0.2 degrees on the sphere of radius 6371), because the longitude term
  is the wrap-aware difference 0.2 and not the naive \<open>-359.8\<close>.
\<close>

theorem haversineDistance_symmetric_zero_antimeridian:
  "haversineDistance P Q = haversineDistance Q P
   \<and> haversineDistance P P = 0
   \<and> lngDifference 179.9 (- 179.9) = 0.2
   \<and> haversineDistance (179.9, 0) (- 179.9, 0) = EARTH_RADIUS * degToRad 0.2
   \<and> 22 < haversineDistance (179.9, 0) (- 179.9, 0)
   \<and> haversineDistance (179.9, 0) (- 179.9, 0) < 23"
proof -
  have "lngDifference 179.9 (- 179.9) = 0.2" by (simp add: lngDifference_cases)
  moreover have "haversineDistance (179.9, 0) (- 179.9, 0) = EARTH_RADIUS * degToRad 0.2"
    by (simp add: haversineDistance_antimeridian EARTH_RADIUS_def degToRad_def)
  ultimately show ?thesis
    using haversineDistance_sym[of P Q] haversineDistance_self[of P]
      haversineDistance_antimeridian_bounds by simp
qed

section \<open>Projection round trip\<close>

lemma lat_roundtrip:
  assumes "\<bar>lat\<bar> < 85"
  shows "mercatorYToLat (latToMercatorY lat) = lat"
proof -
  define t where "t = PI / 4 + degToRad lat / 2"
  have t0: "0 < t" using assms by (simp add: t_def degToRad_def PI_def abs_less_iff)
  have "t < 1.55" using assms by (simp add: t_def degToRad_def PI_def abs_less_iff)
  also have "\<dots> < pi / 2" using pi_lower by simp
  finally have t1: "t < pi / 2" .
  have tp: "0 < tan t" using t0 t1 by (rule tan_gt_zero)
  have P: "PI \<noteq> 0" by (simp add: PI_def)
  have "PI * (1 - 2 * ((PI - ln (tan t)) / (2 * PI))) = ln (tan t)"
    using P by (simp add: field_simps)
  then have "arctan (exp (PI * (1 - 2 * ((PI - ln (tan t)) / (2 * PI))))) = arctan (tan t)"
    using tp by simp
  also have "\<dots> = t" using t0 t1 by (intro arctan_tan) auto
  finally have a: "arctan (exp (PI * (1 - 2 * ((PI - ln (tan t)) / (2 * PI))))) = t" .
  have "mercatorYToLat (latToMercatorY lat) = 2 * (t - PI / 4) * 180 / PI"
    unfolding mercatorYToLat_def latToMercatorY_def Let_def
    using a by (simp add: t_def)
  also have "\<dots> = lat" using P by (simp add: t_def degToRad_def)
  finally show ?thesis .
qed

lemma lng_roundtrip: "mercatorXToLng (lngToMercatorX lng) = lng"
  by (simp add: mercatorXToLng_def lngToMercatorX_def field_simps)

text \<open>
  Claim C7: for a longitude with \<open>|lng| \<le> 180\<close> and a latitude with \<open>|lat| < 85\<close>,
  projecting to Mercator unit coordinates and back returns the same longitude and latitude.
  In the real-number model the round trip is exact, hence within every tolerance.
\<close>

theorem mercator_round_trip:
  assumes "\<bar>lng\<bar> \<le> 180" and "\<bar>lat\<bar> < 85"
  shows "mercatorXToLng (lngToMercatorX lng) = lng \<and> mercatorYToLat (latToMercatorY lat) = lat"
  using lng_roundtrip[of lng] lat_roundtrip[OF assms(2)] by simp

theorem mercator_round_trip_witness:
  "\<bar>10.25::real\<bar> \<le> 180 \<and> \<bar>59.75::real\<bar> < 85
   \<and> mercatorXToLng (lngToMercatorX 10.25) = 10.25
   \<and> mercatorYToLat (latToMercatorY 59.75) = 59.75"
proof -
  have h: "\<bar>10.25::real\<bar> \<le> 180" "\<bar>59.75::real\<bar> < 85" by simp_all
  show ?thesis using mercator_round_trip[OF h] h by simp
qed

section \<open>Blending: the loop as a fold over the uploaded points\<close>

lemma pointsArray_of_length: "length (pointsArray_of pts) = 3 * length pts"
  by (induction pts) (simp_all add: pointsArray_of_def)

lemma pointsArray_of_Cons:
  "pointsArray_of (p # pts) = p_lng p # p_lat p # p_value p # pointsArray_of pts"
  by (simp add: pointsArray_of_def)

lemma pointsArray_of_nth:
  "i < length pts \<Longrightarrow>
     pointsArray_of pts ! (3 * i) = p_lng (pts ! i)
     \<and> pointsArray_of pts ! (3 * i + 1) = p_lat (pts ! i)
     \<and> pointsArray_of pts ! (3 * i + 2) = p_value (pts ! i)"
proof (induction pts arbitrary: i)
  case Nil
  then show ?case by simp
next
  case (Cons p pts)
  show ?case
  proof (cases i)
    case 0
    then show ?thesis by (simp add: pointsArray_of_Cons)
  next
    case (Suc j)
    then have j: "j < length pts" using Cons.prems by simp
    have e: "3 * i = Suc (Suc (Suc (3 * j)))" using Suc by simp
    show ?thesis
      using Cons.IH[OF j] unfolding e pointsArray_of_Cons Suc by simp
  qed
qed

lemma uploaded_point:
  assumes "i < length pts" "i < 250"
  shows "u_points (set_point_uniforms (pointsArray_of pts) n u) i
         = (p_lng (pts ! i), p_lat (pts ! i), p_value (pts ! i))"
  using assms pointsArray_of_nth[OF assms(1)]
  by (simp add: set_point_uniforms_def uniform3fv_def pointsArray_of_length)

lemma falloff_set_points [simp]: "falloff (set_point_uniforms arr n u) d = falloff u d"
  by (simp add: falloff_def set_point_uniforms_def)

lemma blend_step_set_points [simp]:
  "blend_step (set_point_uniforms arr n u) pos = blend_step u pos"
proof (intro ext)
  fix acc p
  show "blend_step (set_point_uniforms arr n u) pos acc p = blend_step u pos acc p"
    by (simp add: blend_step_def) (simp add: set_point_uniforms_def)
qed

lemma accumulate_as_fold:
  assumes len: "length pts \<le> 250"
    and rd: "\<And>j. j < length pts \<Longrightarrow> u_points u j = (p_lng (pts ! j), p_lat (pts ! j), p_value (pts ! j))"
    and num: "u_numPoints u = int (length pts)"
  shows "i \<le> length pts \<Longrightarrow> accumulate u pos i acc = foldl (blend_step u pos) acc (drop i pts)"
proof (induction "length pts - i" arbitrary: i acc)
  case 0
  then have i: "i = length pts" by simp
  obtain a b where acc: "acc = (a, b)" by (cases acc)
  show ?case unfolding acc
    by (subst accumulate.simps) (simp add: i num)
next
  case (Suc k)
  then have i: "i < length pts" by simp
  then have i250: "i < 250" using len by simp
  obtain a b where acc: "acc = (a, b)" by (cases acc)
  have dr: "drop i pts = pts ! i # drop (Suc i) pts"
    using i by (simp add: Cons_nth_drop_Suc)
  have k: "k = length pts - Suc i" using Suc.hyps(2) by simp
  have le: "Suc i \<le> length pts" using i by simp
  have IH: "accumulate u pos (Suc i) acc' = foldl (blend_step u pos) acc' (drop (Suc i) pts)" for acc'
    using Suc.hyps(1)[OF k le] .
  have nb: "\<not> int i \<ge> u_numPoints u" using i num by simp
  show ?case unfolding acc dr
    apply (subst accumulate.simps)
    apply (simp only: i250 nb if_True if_False rd[OF i] fst_conv snd_conv Let_def foldl_Cons)
    apply (simp add: blend_step_def IH)
    done
qed

lemma foldl_blend_filter:
  "foldl (blend_step u pos) acc (filter (\<lambda>p. p_value p \<noteq> 0) pts) = foldl (blend_step u pos) acc pts"
proof (induction pts arbitrary: acc)
  case Nil
  show ?case by simp
next
  case (Cons p pts)
  show ?case
  proof (cases "p_value p = 0")
    case True
    then have "blend_step u pos acc p = acc" by (simp add: blend_step_def)
    with True Cons.IH show ?thesis by simp
  next
    case False
    with Cons.IH show ?thesis by simp
  qed
qed

lemma accumulate_uploaded:
  assumes "length pts \<le> 250"
  shows "accumulate (set_point_uniforms (pointsArray_of pts) (length pts) u) pos 0 acc
         = foldl (blend_step u pos) acc pts"
proof -
  let ?U = "set_point_uniforms (pointsArray_of pts) (length pts) u"
  have rd: "u_points ?U j = (p_lng (pts ! j), p_lat (pts ! j), p_value (pts ! j))"
    if "j < length pts" for j
    using that assms by (intro uploaded_point) auto
  have num: "u_numPoints ?U = int (length pts)" by (simp add: set_point_uniforms_def)
  have "accumulate ?U pos 0 acc = foldl (blend_step ?U pos) acc (drop 0 pts)"
    by (rule accumulate_as_fold[OF assms rd num]) auto
  then show ?thesis by simp
qed

text \<open>
  Claim C3: a sample point whose value is 0 does not affect the blended value. For every
  point set that the layer accepts (at most 250 points), every setting of the other
  uniforms and every geographic position, the blended value over the uploaded set equals
  the blended value over the set with its zero-value points removed.
\<close>

theorem zero_value_points_do_not_affect_rawValue:
  assumes "length pts \<le> 250"
  shows "interpolatedValue (set_point_uniforms (pointsArray_of pts) (length pts) u) pos
         = interpolatedValue
             (set_point_uniforms (pointsArray_of (filter (\<lambda>p. p_value p \<noteq> 0) pts))
                (length (filter (\<lambda>p. p_value p \<noteq> 0) pts)) u) pos"
proof -
  have "length (filter (\<lambda>p. p_value p \<noteq> 0) pts) \<le> 250"
    using assms length_filter_le[of "\<lambda>p. p_value p \<noteq> 0" pts] by linarith
  then show ?thesis
    unfolding interpolatedValue_def
    by (simp only: accumulate_uploaded[OF assms] accumulate_uploaded foldl_blend_filter)
qed

theorem zero_value_points_do_not_affect_rawValue_witness:
  "length [wet_point, dry_point] \<le> 250
   \<and> filter (\<lambda>p. p_value p \<noteq> 0) [wet_point, dry_point] = [wet_point]
   \<and> interpolatedValue
        (set_point_uniforms (pointsArray_of [wet_point, dry_point]) (length [wet_point, dry_point])
           (zero_uniforms\<lparr>u_influenceRadius := 25, u_falloffSteepness := 1.8\<rparr>)) (- 179.9, 0)
      = interpolatedValue
        (set_point_uniforms (pointsArray_of [wet_point]) (length [wet_point])
           (zero_uniforms\<lparr>u_influenceRadius := 25, u_falloffSteepness := 1.8\<rparr>)) (- 179.9, 0)"
proof -
  have h: "length [wet_point, dry_point] \<le> 250" by simp
  have f: "filter (\<lambda>p. p_value p \<noteq> 0) [wet_point, dry_point] = [wet_point]"
    by (simp add: wet_point_def dry_point_def)
  note t = zero_value_points_do_not_affect_rawValue[OF h,
        of "zero_uniforms\<lparr>u_influenceRadius := 25, u_falloffSteepness := 1.8\<rparr>" "(- 179.9, 0)",
        unfolded f]
  from h f t show ?thesis by (intro conjI)
qed

section \<open>Blending: one point at the query position\<close>

lemma falloff_at_zero: "falloff u 0 = 1"
  by (simp add: falloff_def glsl_pow_def)

lemma getColor_above_one: "1 \<le> v \<Longrightarrow> getColor u v = u_gradientColors u 4"
  by (simp add: getColor_def clamp_def)

text \<open>
  Claim C5: for a single sample point of value 1 at distance 0 from the query position
  (positive radius and steepness), the falloff is 1, the weighted average collapses to 1
  and the blended value is \<open>1 * 1.15\<close>, above 1.0; the colour lookup clamps it to 1.0 and
  returns the last (fifth) gradient colour.
\<close>

theorem single_point_at_distance_zero:
  assumes "0 < u_influenceRadius u" and "0 < u_falloffSteepness u"
    and "p_value p = 1" and "haversineDistance pos (p_lng p, p_lat p) = 0"
  shows "interpolatedValue (set_point_uniforms (pointsArray_of [p]) (length [p]) u) pos = 1 * 1.15
         \<and> 1.0 < interpolatedValue (set_point_uniforms (pointsArray_of [p]) (length [p]) u) pos
         \<and> clamp (interpolatedValue (set_point_uniforms (pointsArray_of [p]) (length [p]) u) pos) 0.0 1.0 = 1.0
         \<and> getColor (set_point_uniforms (pointsArray_of [p]) (length [p]) u)
              (interpolatedValue (set_point_uniforms (pointsArray_of [p]) (length [p]) u) pos)
            = u_gradientColors u 4"
proof -
  let ?U = "set_point_uniforms (pointsArray_of [p]) (length [p]) u"
  have "accumulate ?U pos 0 (0, 0) = foldl (blend_step u pos) (0, 0) [p]"
    by (rule accumulate_uploaded) simp
  also have "\<dots> = (1, 1)"
    using assms by (simp add: blend_step_def falloff_at_zero)
  finally have iv: "interpolatedValue ?U pos = 1.15"
    by (simp add: interpolatedValue_def)
  have g: "u_gradientColors ?U 4 = u_gradientColors u 4"
    by (simp add: set_point_uniforms_def)
  show ?thesis
    unfolding iv using g by (simp add: getColor_above_one clamp_def)
qed

theorem single_point_at_distance_zero_witness:
  "0 < u_influenceRadius (zero_uniforms\<lparr>u_influenceRadius := 25, u_falloffSteepness := 1.8\<rparr>)
   \<and> haversineDistance (- 179.9, 0) (p_lng wet_point, p_lat wet_point) = 0
   \<and> interpolatedValue
        (set_point_uniforms (pointsArray_of [wet_point]) (length [wet_point])
           (zero_uniforms\<lparr>u_influenceRadius := 25, u_falloffSteepness := 1.8\<rparr>)) (- 179.9, 0) = 1.15"
proof -
  let ?u = "zero_uniforms\<lparr>u_influenceRadius := 25, u_falloffSteepness := 1.8\<rparr>"
  have h1: "0 < u_influenceRadius ?u" by simp
  have h2: "0 < u_falloffSteepness ?u" by simp
  have h3: "p_value wet_point = 1" by (simp add: wet_point_def)
  have h4: "haversineDistance (- 179.9, 0) (p_lng wet_point, p_lat wet_point) = 0"
    using haversineDistance_self[of "(- 179.9, 0)"] by (simp add: wet_point_def)
  show ?thesis
    using single_point_at_distance_zero[OF h1 h2 h3 h4] h1 h4 by simp
qed

section \<open>The falloff curve\<close>








section \<open>Colour bands\<close>

lemma reference_colors:
  "u_gradientColors (set_gradient_uniforms (gradientColors_of COLOR_GRADIENT) (gradientStops_of COLOR_GRADIENT) u) 0 = (135, 206, 250)"
  "u_gradientColors (set_gradient_uniforms (gradientColors_of COLOR_GRADIENT) (gradientStops_of COLOR_GRADIENT) u) 1 = (100, 180, 230)"
  "u_gradientColors (set_gradient_uniforms (gradientColors_of COLOR_GRADIENT) (gradientStops_of COLOR_GRADIENT) u) 2 = (70, 130, 180)"
  "u_gradientColors (set_gradient_uniforms (gradientColors_of COLOR_GRADIENT) (gradientStops_of COLOR_GRADIENT) u) 3 = (30, 100, 200)"
  "u_gradientColors (set_gradient_uniforms (gradientColors_of COLOR_GRADIENT) (gradientStops_of COLOR_GRADIENT) u) 4 = (0, 60, 150)"
  by (simp_all add: set_gradient_uniforms_def uniform3fv_def gradientColors_of_def COLOR_GRADIENT_def)

lemma colorFor_spec_reference:
  "colorFor_spec COLOR_GRADIENT v =
     Some (if clamp v 0 1 < 0.2 then (135, 206, 250)
           else if clamp v 0 1 < 0.4 then (100, 180, 230)
           else if clamp v 0 1 < 0.6 then (70, 130, 180)
           else if clamp v 0 1 < 0.8 then (30, 100, 200)
           else (0, 60, 150))"
proof -
  have "0 \<le> clamp v 0 1" by (simp add: clamp_def)
  then show ?thesis
    by (simp add: colorFor_spec_def COLOR_GRADIENT_def Let_def)
qed

text \<open>
  Claim C6: the colour lookup clamps its input to \<open>[0, 1]\<close> and returns the colour of the
  last gradient stop whose threshold is at most the value, a step function without
  interpolation. With the gradient that the layer uploads, whose thresholds are
  \<open>[0.0, 0.2, 0.4, 0.6, 0.8]\<close>, \<open>getColor\<close> agrees at every value with the scan that the
  specification words; 0.19 and 0.0 get the same colour, that of the first stop, and 0.2
  gets the colour of the second stop, a different one.
\<close>

theorem getColor_is_step_function_on_reference_gradient:
  "colorFor_spec COLOR_GRADIENT v =
     Some (getColor (set_gradient_uniforms (gradientColors_of COLOR_GRADIENT)
                       (gradientStops_of COLOR_GRADIENT) u) v)
   \<and> getColor (set_gradient_uniforms (gradientColors_of COLOR_GRADIENT)
                (gradientStops_of COLOR_GRADIENT) u) v
     = getColor (set_gradient_uniforms (gradientColors_of COLOR_GRADIENT)
                (gradientStops_of COLOR_GRADIENT) u) (clamp v 0 1)
   \<and> gradientStops_of COLOR_GRADIENT = [0.0, 0.2, 0.4, 0.6, 0.8]
   \<and> getColor (set_gradient_uniforms (gradientColors_of COLOR_GRADIENT)
                (gradientStops_of COLOR_GRADIENT) u) 0.19
     = getColor (set_gradient_uniforms (gradientColors_of COLOR_GRADIENT)
                (gradientStops_of COLOR_GRADIENT) u) 0.0
   \<and> getColor (set_gradient_uniforms (gradientColors_of COLOR_GRADIENT)
                (gradientStops_of COLOR_GRADIENT) u) 0.0 = color (COLOR_GRADIENT ! 0)
   \<and> getColor (set_gradient_uniforms (gradientColors_of COLOR_GRADIENT)
                (gradientStops_of COLOR_GRADIENT) u) 0.2 = color (COLOR_GRADIENT ! 1)
   \<and> color (COLOR_GRADIENT ! 1) \<noteq> color (COLOR_GRADIENT ! 0)"
proof -
  let ?U = "set_gradient_uniforms (gradientColors_of COLOR_GRADIENT) (gradientStops_of COLOR_GRADIENT) u"
  have g: "getColor ?U w =
     (if clamp w 0 1 < 0.2 then (135, 206, 250)
      else if clamp w 0 1 < 0.4 then (100, 180, 230)
      else if clamp w 0 1 < 0.6 then (70, 130, 180)
      else if clamp w 0 1 < 0.8 then (30, 100, 200)
      else (0, 60, 150))" for w
    unfolding getColor_def Let_def reference_colors by simp
  have cc: "clamp (clamp v 0 1) 0 1 = clamp v 0 1" by (simp add: clamp_def)
  have 1: "colorFor_spec COLOR_GRADIENT v = Some (getColor ?U v)"
    unfolding g colorFor_spec_reference by simp
  have 2: "getColor ?U v = getColor ?U (clamp v 0 1)"
    unfolding g cc by simp
  have 3: "gradientStops_of COLOR_GRADIENT = [0.0, 0.2, 0.4, 0.6, 0.8]"
    by (simp add: gradientStops_of_def COLOR_GRADIENT_def)
  have 4: "getColor ?U 0.19 = getColor ?U 0.0" unfolding g by (simp add: clamp_def)
  have 5: "getColor ?U 0.0 = color (COLOR_GRADIENT ! 0)"
    unfolding g by (simp add: clamp_def COLOR_GRADIENT_def)
  have 6: "getColor ?U 0.2 = color (COLOR_GRADIENT ! 1)"
    unfolding g by (simp add: clamp_def COLOR_GRADIENT_def)
  have 7: "color (COLOR_GRADIENT ! 1) \<noteq> color (COLOR_GRADIENT ! 0)"
    by (simp add: COLOR_GRADIENT_def)
  from 1 2 3 4 5 6 7 show ?thesis by (intro conjI)
qed

lemma getColor_band:
  "getColor u v = u_gradientColors u (nat (min 4 \<lfloor>5 * clamp v 0 1\<rfloor>))"
proof -
  let ?c = "clamp v 0 1"
  have r: "0 \<le> ?c" "?c \<le> 1" by (simp_all add: clamp_def)
  consider "?c < 0.2" | "0.2 \<le> ?c" "?c < 0.4" | "0.4 \<le> ?c" "?c < 0.6"
    | "0.6 \<le> ?c" "?c < 0.8" | "0.8 \<le> ?c" by linarith
  then show ?thesis
  proof cases
    case 1
    then have "\<lfloor>5 * ?c\<rfloor> = 0" using r by (intro floor_unique) auto
    with 1 show ?thesis by (simp add: getColor_def Let_def)
  next
    case 2
    then have "\<lfloor>5 * ?c\<rfloor> = 1" by (intro floor_unique) auto
    with 2 show ?thesis by (simp add: getColor_def Let_def)
  next
    case 3
    then have "\<lfloor>5 * ?c\<rfloor> = 2" by (intro floor_unique) auto
    with 3 show ?thesis by (simp add: getColor_def Let_def)
  next
    case 4
    then have "\<lfloor>5 * ?c\<rfloor> = 3" by (intro floor_unique) auto
    with 4 show ?thesis by (simp add: getColor_def Let_def)
  next
    case 5
    then have "4 \<le> \<lfloor>5 * ?c\<rfloor>" by (simp add: le_floor_iff)
    then have "min 4 \<lfloor>5 * ?c\<rfloor> = 4" by simp
    with 5 show ?thesis by (simp add: getColor_def Let_def)
  qed
qed

lemma gradientColors_of_restopped:
  "gradientColors_of (map (\<lambda>e. e\<lparr>stop := f e\<rparr>) grads) = gradientColors_of grads"
  by (simp add: gradientColors_of_def o_def)

text \<open>
  Claim C9: the band boundaries of the colour lookup are the literals 0.2, 0.4, 0.6 and 0.8
  of the shader. The colour depends on the value and on the uploaded gradient colours
  only: uploading other stop thresholds, of any number, gives the same colour; so does
  any change of the \<open>u_gradientStops\<close> uniform, and any rewriting of the thresholds of
  a gradient table; the slot read is the band number \<open>min 4 (floor (5 * clamp value))\<close>.
\<close>

theorem getColor_ignores_gradientStops:
  "getColor (set_gradient_uniforms colors stops u) v = getColor (set_gradient_uniforms colors stops' u) v
   \<and> getColor (u\<lparr>u_gradientStops := s\<rparr>) v = getColor u v
   \<and> getColor (set_gradient_uniforms (gradientColors_of (map (\<lambda>e. e\<lparr>stop := f e\<rparr>) grads))
                (gradientStops_of (map (\<lambda>e. e\<lparr>stop := f e\<rparr>) grads)) u) v
     = getColor (set_gradient_uniforms (gradientColors_of grads) (gradientStops_of grads) u) v
   \<and> getColor u v = u_gradientColors u (nat (min 4 \<lfloor>5 * clamp v 0 1\<rfloor>))"
proof -
  have a: "getColor (set_gradient_uniforms cs st u) v = getColor (set_gradient_uniforms cs st' u) v"
    for cs st st'
    by (simp add: getColor_def set_gradient_uniforms_def Let_def)
  have b: "getColor (u\<lparr>u_gradientStops := s\<rparr>) v = getColor u v"
    by (simp add: getColor_def Let_def)
  have c: "getColor (set_gradient_uniforms (gradientColors_of (map (\<lambda>e. e\<lparr>stop := f e\<rparr>) grads))
                (gradientStops_of (map (\<lambda>e. e\<lparr>stop := f e\<rparr>) grads)) u) v
     = getColor (set_gradient_uniforms (gradientColors_of grads) (gradientStops_of grads) u) v"
    unfolding gradientColors_of_restopped by (rule a)
  from a[of colors stops stops'] b c getColor_band[of u v] show ?thesis by (intro conjI)
qed

section \<open>The point cap of the layer\<close>

lemma prepareUniformData_oversized:
  "length (points L) > 250 \<Longrightarrow>
     prepareUniformData L = (Some (Error ''Maximum 250 data points supported''), L)"
  by (simp add: prepareUniformData_def)

lemma updatePoints_oversized:
  "length newPoints > 250 \<Longrightarrow>
     updatePoints newPoints L
       = (Some (Error ''Maximum 250 data points supported''), L\<lparr>points := newPoints\<rparr>)"
  by (simp add: updatePoints_def Let_def prepareUniformData_oversized)

lemma onAdd_working:
  assumes "compileStatus gl VERTEX_SHADER" "compileStatus gl FRAGMENT_SHADER" "linkStatus gl"
  shows "onAdd L mp gl =
           prepareUniformData (L\<lparr>layer_map := Some mp, program := Some (programHandle gl),
                                  positionBuffer := Some (bufferHandle gl)\<rparr>)"
  using assms by (simp add: onAdd_def createShader_def createProgram_def Let_def)

lemma active_layer_eq:
  "active_layer =
     \<lparr>layer_id = ''precipitation-layer'', layer_type = ''custom'', renderingMode = ''2d'',
      points = [wet_point], layer_config = DEFAULT_CONFIG,
      program = Some 3, positionBuffer = Some 4, layer_map = Some 0,
      pointsArray = Some [- 179.9, 0, 1],
      gradientColors = Some (gradientColors_of COLOR_GRADIENT),
      gradientStops = Some (gradientStops_of COLOR_GRADIENT)\<rparr>"
proof -
  have w: "compileStatus working_gl VERTEX_SHADER" "compileStatus working_gl FRAGMENT_SHADER"
    "linkStatus working_gl" by (simp_all add: working_gl_def)
  have s: "spread DEFAULT_CONFIG empty_patch = DEFAULT_CONFIG"
    by (simp add: spread_def empty_patch_def DEFAULT_CONFIG_def)
  show ?thesis
    unfolding active_layer_def onAdd_working[OF w]
    by (simp add: PrecipitationLayer_def prepareUniformData_def s pointsArray_of_def)
       (simp add: wet_point_def working_gl_def)
qed

text \<open>
  Claim C10: constructing a layer with more than 250 sample points raises nothing: the
  constructor stores the points and prepares no array. The cap is checked by
  \<open>prepareUniformData\<close> only, so the oversized set fails when the layer is added to the
  map (shaders and program building) or when it is passed to \<open>updatePoints\<close>.
\<close>

theorem constructor_accepts_oversized_point_set:
  assumes "length pts > 250"
    and "compileStatus gl VERTEX_SHADER" "compileStatus gl FRAGMENT_SHADER" "linkStatus gl"
  shows "points (PrecipitationLayer ident pts cfg) = pts
         \<and> pointsArray (PrecipitationLayer ident pts cfg) = None
         \<and> fst (onAdd (PrecipitationLayer ident pts cfg) mp gl)
             = Some (Error ''Maximum 250 data points supported'')
         \<and> pointsArray (snd (onAdd (PrecipitationLayer ident pts cfg) mp gl)) = None
         \<and> fst (updatePoints pts L) = Some (Error ''Maximum 250 data points supported'')"
proof -
  have p: "points (PrecipitationLayer ident pts cfg) = pts"
    and a: "pointsArray (PrecipitationLayer ident pts cfg) = None"
    by (simp_all add: PrecipitationLayer_def)
  let ?L = "(PrecipitationLayer ident pts cfg)\<lparr>layer_map := Some mp,
              program := Some (programHandle gl), positionBuffer := Some (bufferHandle gl)\<rparr>"
  have "length (points ?L) > 250" using assms(1) p by simp
  then have "prepareUniformData ?L = (Some (Error ''Maximum 250 data points supported''), ?L)"
    by (rule prepareUniformData_oversized)
  then have o: "onAdd (PrecipitationLayer ident pts cfg) mp gl
                 = (Some (Error ''Maximum 250 data points supported''), ?L)"
    using onAdd_working[OF assms(2-4)] by simp
  have u: "fst (updatePoints pts L) = Some (Error ''Maximum 250 data points supported'')"
    using updatePoints_oversized[OF assms(1)] by simp
  show ?thesis unfolding o using p a u by (simp add: PrecipitationLayer_def)
qed

theorem constructor_accepts_oversized_point_set_witness:
  "length (replicate 251 wet_point) > 250
   \<and> compileStatus working_gl VERTEX_SHADER \<and> compileStatus working_gl FRAGMENT_SHADER
   \<and> linkStatus working_gl
   \<and> points (PrecipitationLayer ''precipitation-layer'' (replicate 251 wet_point) empty_patch)
       = replicate 251 wet_point
   \<and> fst (onAdd (PrecipitationLayer ''precipitation-layer'' (replicate 251 wet_point) empty_patch)
             0 working_gl)
       = Some (Error ''Maximum 250 data points supported'')"
proof -
  have h: "length (replicate 251 wet_point) > 250" by simp
  have w: "compileStatus working_gl VERTEX_SHADER" "compileStatus working_gl FRAGMENT_SHADER"
    "linkStatus working_gl" by (simp_all add: working_gl_def)
  from constructor_accepts_oversized_point_set[OF h w,
      of "''precipitation-layer''" empty_patch 0 active_layer] h w
  show ?thesis by blast
qed

lemma two_point_layer_eq:
  "two_point_layer =
     \<lparr>layer_id = ''precipitation-layer'', layer_type = ''custom'', renderingMode = ''2d'',
      points = [wet_point, east_point],
      layer_config = DEFAULT_CONFIG\<lparr>influenceRadius := 10\<rparr>,
      program = Some 3, positionBuffer = Some 4, layer_map = Some 0,
      pointsArray = Some [- 179.9, 0, 1, 179.9, 0, 1],
      gradientColors = Some (gradientColors_of COLOR_GRADIENT),
      gradientStops = Some (gradientStops_of COLOR_GRADIENT)\<rparr>"
proof -
  have w: "compileStatus working_gl VERTEX_SHADER" "compileStatus working_gl FRAGMENT_SHADER"
    "linkStatus working_gl" by (simp_all add: working_gl_def)
  have s: "spread DEFAULT_CONFIG narrow_patch = DEFAULT_CONFIG\<lparr>influenceRadius := 10\<rparr>"
    by (simp add: spread_def empty_patch_def narrow_patch_def DEFAULT_CONFIG_def)
  have o: "onAdd L mp working_gl =
           prepareUniformData (L\<lparr>layer_map := Some mp, program := Some (programHandle working_gl),
                                  positionBuffer := Some (bufferHandle working_gl)\<rparr>)" for L mp
    using w by (simp add: onAdd_def createShader_def createProgram_def Let_def)
  show ?thesis
    unfolding two_point_layer_def o
    by (simp add: PrecipitationLayer_def prepareUniformData_def s pointsArray_of_def)
       (simp add: wet_point_def east_point_def working_gl_def)
qed

lemma render_prepared:
  assumes "pointsArray L = Some arr" "gradientColors L = Some colors" "gradientStops L = Some stops"
    and "layer_map L = Some mp"
  shows "\<exists>u'. render L cam u = Some u'
           \<and> u_points u' = uniform3fv (u_points u) 250 arr
           \<and> u_numPoints u' = int (length (points L))
           \<and> u_influenceRadius u' = influenceRadius (layer_config L)
           \<and> u_falloffSteepness u' = falloffSteepness (layer_config L)"
  using assms by (simp add: render_def set_gradient_uniforms_def set_point_uniforms_def)

lemma accumulate_zero_tail:
  assumes "\<And>j. i \<le> j \<Longrightarrow> snd (snd (u_points u j)) = 0"
  shows "accumulate u pos i acc = acc"
  using assms
proof (induction "250 - i" arbitrary: i)
  case 0
  obtain a b where acc: "acc = (a, b)" by (cases acc)
  from 0 have "\<not> i < 250" by simp
  then show ?case unfolding acc by (subst accumulate.simps) simp
next
  case (Suc k)
  obtain a b where acc: "acc = (a, b)" by (cases acc)
  have z: "snd (snd (u_points u i)) = 0" using Suc.prems by simp
  have k: "k = 250 - Suc i" using Suc.hyps(2) by simp
  have IH: "accumulate u pos (Suc i) acc = acc"
    using Suc.hyps(1)[OF k] Suc.prems by simp
  show ?case
    unfolding acc
    apply (subst accumulate.simps)
    using IH z by (simp add: acc Let_def)
qed

text \<open>
  What the failed update does to the picture. A layer holds the two wet points and is
  drawn; its point set is replaced by the western point alone and drawn; then an update
  with 251 points is rejected, and the layer is drawn again. At the eastern point the
  blended value is 0 before the rejected update and 1.15 after it: the point count 251
  left behind by the rejected update makes the shader read the element of \<open>u_points\<close>
  that still holds the eastern point of the first set, which belongs neither to the set
  in force nor to the rejected one.
\<close>

lemma stale_point_after_failed_update:
  "Option.bind (render two_point_layer still_camera zero_uniforms) (\<lambda>u1.
     Option.bind (render (snd (updatePoints [wet_point] two_point_layer)) still_camera u1) (\<lambda>u2.
       Option.bind
         (render (snd (updatePoints (replicate 251 wet_point)
                         (snd (updatePoints [wet_point] two_point_layer)))) still_camera u2)
         (\<lambda>u3. Some (interpolatedValue u2 (179.9, 0), u_numPoints u3,
                      interpolatedValue u3 (179.9, 0)))))
   = Some (0, 251, 1.15)"
proof -
  let ?pos = "(179.9, 0) :: vec2"
  define L2 where "L2 = two_point_layer\<lparr>points := [wet_point], pointsArray := Some [- 179.9, 0, 1]\<rparr>"
  define L3 where "L3 = L2\<lparr>points := replicate 251 wet_point\<rparr>"
  have e2: "snd (updatePoints [wet_point] two_point_layer) = L2"
    by (simp add: L2_def updatePoints_def prepareUniformData_def Let_def two_point_layer_eq
        pointsArray_of_def wet_point_def)
  have e3: "snd (updatePoints (replicate 251 wet_point) L2) = L3"
    by (simp add: L3_def updatePoints_def prepareUniformData_def Let_def)
  have g: "gradientColors two_point_layer = Some (gradientColors_of COLOR_GRADIENT)"
    "gradientStops two_point_layer = Some (gradientStops_of COLOR_GRADIENT)"
    "gradientColors L2 = Some (gradientColors_of COLOR_GRADIENT)"
    "gradientStops L2 = Some (gradientStops_of COLOR_GRADIENT)"
    "gradientColors L3 = Some (gradientColors_of COLOR_GRADIENT)"
    "gradientStops L3 = Some (gradientStops_of COLOR_GRADIENT)"
    by (simp_all add: L3_def L2_def two_point_layer_eq)
  have a: "pointsArray two_point_layer = Some [- 179.9, 0, 1, 179.9, 0, 1]"
    "pointsArray L2 = Some [- 179.9, 0, 1]" "pointsArray L3 = Some [- 179.9, 0, 1]"
    by (simp_all add: L3_def L2_def two_point_layer_eq)
  have c: "length (points L2) = 1" "length (points L3) = 251"
    "influenceRadius (layer_config L2) = 10" "influenceRadius (layer_config L3) = 10"
    by (simp_all add: L3_def L2_def two_point_layer_eq)
  have m: "layer_map two_point_layer = Some 0" "layer_map L2 = Some 0" "layer_map L3 = Some 0"
    by (simp_all add: L3_def L2_def two_point_layer_eq)
  from render_prepared[OF a(1) g(1,2) m(1), of still_camera zero_uniforms]
  obtain u1 where r1: "render two_point_layer still_camera zero_uniforms = Some u1"
    and p1: "u_points u1 = uniform3fv (u_points zero_uniforms) 250 [- 179.9, 0, 1, 179.9, 0, 1]"
    by blast
  from render_prepared[OF a(2) g(3,4) m(2), of still_camera u1]
  obtain u2 where r2: "render L2 still_camera u1 = Some u2"
    and p2: "u_points u2 = uniform3fv (u_points u1) 250 [- 179.9, 0, 1]"
    and n2': "u_numPoints u2 = int (length (points L2))"
    and i2': "u_influenceRadius u2 = influenceRadius (layer_config L2)"
    by blast
  from render_prepared[OF a(3) g(5,6) m(3), of still_camera u2]
  obtain u3 where r3: "render L3 still_camera u2 = Some u3"
    and p3: "u_points u3 = uniform3fv (u_points u2) 250 [- 179.9, 0, 1]"
    and n3': "u_numPoints u3 = int (length (points L3))"
    and i3': "u_influenceRadius u3 = influenceRadius (layer_config L3)"
    by blast
  have n2: "u_numPoints u2 = 1" and i2: "u_influenceRadius u2 = 10"
    and n3: "u_numPoints u3 = 251" and i3: "u_influenceRadius u3 = 10"
    unfolding n2' i2' n3' i3' c by simp_all
  have far: "\<not> haversineDistance ?pos (- 179.9, 0) < 10"
    using haversineDistance_antimeridian_bounds(1) by simp
  have near: "haversineDistance ?pos (179.9, 0) = 0"
    by (rule haversineDistance_self)
  have a0: "u_points u3 0 = (- 179.9, 0, 1)" "u_points u2 0 = (- 179.9, 0, 1)"
    by (simp_all add: p3 p2 uniform3fv_def)
  have a1: "u_points u3 (Suc 0) = (179.9, 0, 1)"
    by (simp add: p3 p2 p1 uniform3fv_def)
  have tail: "snd (snd (u_points u3 j)) = 0" if "Suc (Suc 0) \<le> j" for j
  proof -
    have "\<not> 3 * j + 2 < 6" "\<not> 3 * j + 2 < 3" using that by simp_all
    then show ?thesis by (simp add: p3 p2 p1 uniform3fv_def zero_uniforms_def)
  qed
  have t3: "accumulate u3 ?pos (Suc (Suc 0)) acc = acc" for acc
    by (rule accumulate_zero_tail) (rule tail)
  have "accumulate u3 ?pos 0 (0, 0) = accumulate u3 ?pos (Suc 0) (0, 0)"
    by (subst accumulate.simps) (simp add: n3 a0 far i3 Let_def)
  also have "\<dots> = accumulate u3 ?pos (Suc (Suc 0)) (1, 1)"
    by (subst accumulate.simps) (simp add: n3 a1 near i3 Let_def falloff_at_zero)
  also have "\<dots> = (1, 1)" by (rule t3)
  finally have v3: "interpolatedValue u3 ?pos = 1.15"
    by (simp add: interpolatedValue_def)
  have "accumulate u2 ?pos 0 (0, 0) = accumulate u2 ?pos (Suc 0) (0, 0)"
    by (subst accumulate.simps) (simp add: n2 a0 far i2 Let_def)
  also have "\<dots> = (0, 0)"
    by (subst accumulate.simps) (simp add: n2)
  finally have v2: "interpolatedValue u2 ?pos = 0"
    by (simp add: interpolatedValue_def)
  show ?thesis by (simp add: e2 e3 r1 r2 r3 v2 v3 n3)
qed

text \<open>
  Claim C1 against the code: \<open>updatePoints\<close> with 251 points throws, but it has assigned
  \<open>this.points\<close> before the check. On a layer that holds one point the call leaves the
  251 rejected points in \<open>points\<close>, beside the cached array of the one earlier point;
  the next \<open>render\<close> uploads a point count of 251 where it uploaded 1 before.
\<close>

theorem updatePoints_oversized_replaces_points:
  "fst (updatePoints (replicate 251 wet_point) active_layer)
     = Some (Error ''Maximum 250 data points supported'')
   \<and> points active_layer = [wet_point]
   \<and> points (snd (updatePoints (replicate 251 wet_point) active_layer)) = replicate 251 wet_point
   \<and> points (snd (updatePoints (replicate 251 wet_point) active_layer)) \<noteq> points active_layer
   \<and> pointsArray (snd (updatePoints (replicate 251 wet_point) active_layer)) = pointsArray active_layer
   \<and> map_option u_numPoints (render active_layer still_camera zero_uniforms) = Some 1
   \<and> map_option u_numPoints
        (render (snd (updatePoints (replicate 251 wet_point) active_layer)) still_camera zero_uniforms)
      = Some 251"
proof -
  have h: "length (replicate 251 wet_point) > 250" by simp
  note u = updatePoints_oversized[OF h, of active_layer]
  have ne: "replicate 251 wet_point \<noteq> [wet_point]"
  proof
    assume "replicate 251 wet_point = [wet_point]"
    then have "length (replicate 251 wet_point) = length [wet_point]" by simp
    then show False by simp
  qed
  have r1: "map_option u_numPoints (render active_layer still_camera zero_uniforms) = Some 1"
    by (simp add: render_def active_layer_eq set_gradient_uniforms_def set_point_uniforms_def)
  have r2: "map_option u_numPoints
        (render (active_layer\<lparr>points := replicate 251 wet_point\<rparr>) still_camera zero_uniforms)
      = Some 251"
    by (simp add: render_def active_layer_eq set_gradient_uniforms_def set_point_uniforms_def)
  show ?thesis unfolding u using ne r1 r2 by (simp add: active_layer_eq)
qed

end
